theory Spec2Isabelle
  imports Complex_Main
begin

section \<open>Floating-point values\<close>

text \<open>
  The cells of a pandas float64 series and Python's \<^verbatim>\<open>float\<close> are modelled as the
  reals extended by the two infinities and a not-a-number value. Rounding, overflow
  and the sign of zero are outside the model; the special values follow IEEE 754:
  every comparison with \<open>NaN\<close> is false, \<open>inf - inf\<close>, \<open>0 * inf\<close>, \<open>inf / inf\<close> and
  \<open>0 / 0\<close> are \<open>NaN\<close>, a finite value divided by an infinity is \<open>0\<close>.
\<close>

datatype fl = NaN | PInf | NInf | Fin real

definition isnan :: "fl \<Rightarrow> bool" where
  "isnan x = (x = NaN)"

fun flt :: "fl \<Rightarrow> fl \<Rightarrow> bool" where
  "flt NaN y = False"
| "flt x NaN = False"
| "flt NInf NInf = False"
| "flt NInf y = True"
| "flt x NInf = False"
| "flt PInf y = False"
| "flt (Fin a) PInf = True"
| "flt (Fin a) (Fin b) = (a < b)"

definition fgt :: "fl \<Rightarrow> fl \<Rightarrow> bool" where
  "fgt x y = flt y x"

definition feq :: "fl \<Rightarrow> fl \<Rightarrow> bool" where
  \<comment> \<open>\<^verbatim>\<open>==\<close> on floats: \<open>NaN\<close> equals nothing, itself included\<close>
  "feq x y = (x \<noteq> NaN \<and> x = y)"

definition fle :: "fl \<Rightarrow> fl \<Rightarrow> bool" where
  "fle x y = (flt x y \<or> feq x y)"

definition fge :: "fl \<Rightarrow> fl \<Rightarrow> bool" where
  "fge x y = fle y x"

fun fneg :: "fl \<Rightarrow> fl" where
  "fneg NaN = NaN"
| "fneg PInf = NInf"
| "fneg NInf = PInf"
| "fneg (Fin a) = Fin (- a)"

fun fadd :: "fl \<Rightarrow> fl \<Rightarrow> fl" where
  "fadd NaN y = NaN"
| "fadd x NaN = NaN"
| "fadd PInf NInf = NaN"
| "fadd NInf PInf = NaN"
| "fadd PInf y = PInf"
| "fadd NInf y = NInf"
| "fadd (Fin a) PInf = PInf"
| "fadd (Fin a) NInf = NInf"
| "fadd (Fin a) (Fin b) = Fin (a + b)"

definition fsub :: "fl \<Rightarrow> fl \<Rightarrow> fl" where
  "fsub x y = fadd x (fneg y)"

fun fmul :: "fl \<Rightarrow> fl \<Rightarrow> fl" where
  "fmul NaN y = NaN"
| "fmul x NaN = NaN"
| "fmul (Fin a) (Fin b) = Fin (a * b)"
| "fmul (Fin a) PInf = (if a = 0 then NaN else if 0 < a then PInf else NInf)"
| "fmul (Fin a) NInf = (if a = 0 then NaN else if 0 < a then NInf else PInf)"
| "fmul PInf (Fin b) = (if b = 0 then NaN else if 0 < b then PInf else NInf)"
| "fmul NInf (Fin b) = (if b = 0 then NaN else if 0 < b then NInf else PInf)"
| "fmul PInf PInf = PInf"
| "fmul PInf NInf = NInf"
| "fmul NInf PInf = NInf"
| "fmul NInf NInf = PInf"

fun fdiv :: "fl \<Rightarrow> fl \<Rightarrow> fl" where
  \<comment> \<open>numpy division: a zero divisor gives an infinity or \<open>NaN\<close>, it does not raise;
      the zero divisor is taken as \<open>+0.0\<close>\<close>
  "fdiv NaN y = NaN"
| "fdiv x NaN = NaN"
| "fdiv (Fin a) (Fin b) =
     (if b = 0 then (if a = 0 then NaN else if 0 < a then PInf else NInf)
      else Fin (a / b))"
| "fdiv (Fin a) PInf = Fin 0"
| "fdiv (Fin a) NInf = Fin 0"
| "fdiv PInf (Fin b) = (if 0 \<le> b then PInf else NInf)"
| "fdiv NInf (Fin b) = (if 0 \<le> b then NInf else PInf)"
| "fdiv PInf PInf = NaN"
| "fdiv PInf NInf = NaN"
| "fdiv NInf PInf = NaN"
| "fdiv NInf NInf = NaN"

section \<open>Decision rules of \<^verbatim>\<open>hybrid_signal\<close>\<close>

text \<open>
  Lines 48 to 62 of \<^verbatim>\<open>core/signal.py\<close>: the score starts at 0 and six independent
  \<^verbatim>\<open>if\<close> statements update it in turn.
\<close>

definition tech_score :: "fl \<Rightarrow> fl \<Rightarrow> fl \<Rightarrow> fl \<Rightarrow> fl \<Rightarrow> int" where
  "tech_score latest_rsi latest_macd latest_signal latest_ma50 latest_ma200 =
     (let score0 = 0;
          score1 = (if flt latest_rsi (Fin 30) then score0 + 1 else score0);
          score2 = (if fgt latest_rsi (Fin 70) then score1 - 1 else score1);
          score3 = (if fgt latest_macd latest_signal then score2 + 1 else score2);
          score4 = (if flt latest_macd latest_signal then score3 - 1 else score3);
          score5 = (if fgt latest_ma50 latest_ma200 then score4 + 1 else score4);
          score6 = (if flt latest_ma50 latest_ma200 then score5 - 1 else score5)
      in score6)"

text \<open>Lines 64 to 68: the base signal.\<close>

definition base_signal :: "int \<Rightarrow> string" where
  "base_signal score =
     (if score \<ge> 2 then ''BUY'' else if score \<le> - 2 then ''SELL'' else ''HOLD'')"

text \<open>Lines 70 to 74: the forecast override.\<close>

definition final_signal :: "string \<Rightarrow> fl \<Rightarrow> string" where
  "final_signal base pct_change =
     (if fge pct_change (Fin (1 / 100)) \<and> base \<noteq> ''SELL'' then ''BUY''
      else if fle pct_change (Fin (- (1 / 100))) \<and> base \<noteq> ''BUY'' then ''SELL''
      else base)"

section \<open>Exceptions and dictionaries\<close>

text \<open>
  A raised exception is a value: its class name and the text \<^verbatim>\<open>str(e)\<close> gives. A function
  that can raise returns \<open>exn + 'a\<close>, and \<open>bind_exn\<close> is sequencing: the first exception
  ends the computation.
\<close>

datatype exn = Exn string string

fun str_exn :: "exn \<Rightarrow> string" where
  "str_exn (Exn cls msg) = msg"

fun bind_exn :: "exn + 'a \<Rightarrow> ('a \<Rightarrow> exn + 'b) \<Rightarrow> exn + 'b" where
  "bind_exn (Inl e) f = Inl e"
| "bind_exn (Inr x) f = f x"

text \<open>The values stored in the \<^verbatim>\<open>model_meta\<close> dictionary.\<close>

datatype pyval = PInt int | PBool bool | PStr string | PFloats "fl list"

text \<open>
  A dictionary is an association list in insertion order. \<open>dict_set\<close> is the effect of
  \<^verbatim>\<open>{**d, k: v}\<close>: an existing key keeps its place and takes the new value, a new
  key goes to the end. \<open>dict_get\<close> is \<^verbatim>\<open>d[k]\<close>, raising \<^verbatim>\<open>KeyError\<close>.
\<close>

fun dict_set :: "'k \<Rightarrow> 'v \<Rightarrow> ('k \<times> 'v) list \<Rightarrow> ('k \<times> 'v) list" where
  "dict_set k v [] = [(k, v)]"
| "dict_set k v ((k', v') # d) = (if k' = k then (k, v) # d else (k', v') # dict_set k v d)"

definition dict_get :: "(string \<times> 'v) list \<Rightarrow> string \<Rightarrow> exn + 'v" where
  "dict_get d k =
     (case map_of d k of
        None \<Rightarrow> Inl (Exn ''KeyError'' ([CHR 0x27] @ k @ [CHR 0x27]))
      | Some v \<Rightarrow> Inr v)"

definition iloc_last :: "'a list \<Rightarrow> exn + 'a" where
  \<comment> \<open>\<^verbatim>\<open>s.iloc[-1]\<close> and \<^verbatim>\<open>a[-1]\<close>\<close>
  "iloc_last xs =
     (if xs = [] then Inl (Exn ''IndexError'' ''single positional indexer is out-of-bounds'')
      else Inr (last xs))"

section \<open>The pandas operations the indicators use\<close>

text \<open>
  A float series is the list of its values in position order. Each operation below is
  the documented behaviour of the pandas call named beside it.
\<close>

definition fillna :: "fl \<Rightarrow> fl \<Rightarrow> fl" where
  \<comment> \<open>one cell of \<^verbatim>\<open>s.fillna(v)\<close>\<close>
  "fillna v x = (if isnan x then v else x)"

fun ffill_from :: "fl \<Rightarrow> fl list \<Rightarrow> fl list" where
  "ffill_from prev [] = []"
| "ffill_from prev (x # xs) =
     (if isnan x then prev # ffill_from prev xs else x # ffill_from x xs)"

definition ffill :: "fl list \<Rightarrow> fl list" where
  \<comment> \<open>\<^verbatim>\<open>s.fillna(method="ffill")\<close>: a missing value takes the last value before it that
      is not missing; missing values at the start stay\<close>
  "ffill xs = ffill_from NaN xs"

fun diff_from :: "fl \<Rightarrow> fl list \<Rightarrow> fl list" where
  "diff_from prev [] = []"
| "diff_from prev (x # xs) = fsub x prev # diff_from x xs"

definition diff :: "fl list \<Rightarrow> fl list" where
  \<comment> \<open>\<^verbatim>\<open>s.diff()\<close>: the first value has no predecessor\<close>
  "diff xs = (case xs of [] \<Rightarrow> [] | x # rest \<Rightarrow> NaN # diff_from x rest)"

definition clip_lower :: "fl \<Rightarrow> fl \<Rightarrow> fl" where
  \<comment> \<open>one cell of \<^verbatim>\<open>s.clip(lower=lo)\<close>: a missing value stays missing\<close>
  "clip_lower lo x = (if isnan x \<or> fge x lo then x else lo)"

definition clip_upper :: "fl \<Rightarrow> fl \<Rightarrow> fl" where
  \<comment> \<open>one cell of \<^verbatim>\<open>s.clip(upper=up)\<close>\<close>
  "clip_upper up x = (if isnan x \<or> fle x up then x else up)"

definition replace_val :: "fl \<Rightarrow> fl \<Rightarrow> fl \<Rightarrow> fl" where
  \<comment> \<open>one cell of \<^verbatim>\<open>s.replace(old, new)\<close>\<close>
  "replace_val old new x = (if feq x old then new else x)"

text \<open>
  \<^verbatim>\<open>s.rolling(window=w, min_periods=m).mean()\<close>. The window at position \<open>i\<close> is the
  last \<open>w\<close> values up to and including \<open>i\<close> (fewer at the start). An infinite value
  counts as missing, as a \<open>NaN\<close> does. The mean is over the values present, and is
  missing when fewer than \<open>m\<close> are present or none is.
\<close>

fun fin_vals :: "fl list \<Rightarrow> real list" where
  "fin_vals [] = []"
| "fin_vals (Fin a # xs) = a # fin_vals xs"
| "fin_vals (x # xs) = fin_vals xs"

definition window_at :: "nat \<Rightarrow> 'a list \<Rightarrow> nat \<Rightarrow> 'a list" where
  "window_at w xs i = drop (Suc i - w) (take (Suc i) xs)"

definition mean_obs :: "nat \<Rightarrow> fl list \<Rightarrow> fl" where
  "mean_obs m win =
     (let obs = fin_vals win; nobs = length obs
      in if nobs \<ge> m \<and> nobs > 0 then Fin (sum_list obs / real nobs) else NaN)"

definition rolling_mean :: "nat \<Rightarrow> nat \<Rightarrow> fl list \<Rightarrow> fl list" where
  "rolling_mean w m xs = map (\<lambda>i. mean_obs m (window_at w xs i)) [0..<length xs]"

text \<open>
  \<^verbatim>\<open>s.ewm(span=N, adjust=False).mean()\<close>, with \<open>alpha = 2 / (N + 1)\<close>. The running
  average \<open>weighted\<close> starts at the first value. At a value that is present it becomes
  \<open>(old_wt * weighted + alpha * cur) / (old_wt + alpha)\<close>, unless it already equals
  \<open>cur\<close>; \<open>old_wt\<close> is \<open>1 - alpha\<close> when the value before was present, and shrinks by
  another factor \<open>1 - alpha\<close> for every missing value in between. At a missing value
  the output repeats the running average. As in the rolling mean, an infinite value
  counts as missing: pandas turns it into \<open>NaN\<close> before the recursion runs.
\<close>

fun inf_to_nan :: "fl \<Rightarrow> fl" where
  "inf_to_nan PInf = NaN"
| "inf_to_nan NInf = NaN"
| "inf_to_nan x = x"

definition alpha_of_span :: "nat \<Rightarrow> real" where
  "alpha_of_span n = 2 / (real n + 1)"

definition ewm_step :: "real \<Rightarrow> fl \<times> real \<Rightarrow> fl \<Rightarrow> fl \<times> real" where
  "ewm_step alpha st cur =
     (let weighted = fst st; old_wt = snd st in
      if \<not> isnan weighted then
        (let old_wt' = old_wt * (1 - alpha) in
         if \<not> isnan cur then
           ((if \<not> feq weighted cur
             then fdiv (fadd (fmul (Fin old_wt') weighted) (fmul (Fin alpha) cur))
                       (Fin (old_wt' + alpha))
             else weighted), 1)
         else (weighted, old_wt'))
      else if \<not> isnan cur then (cur, old_wt)
      else (weighted, old_wt))"

fun ewm_from :: "real \<Rightarrow> fl \<times> real \<Rightarrow> fl list \<Rightarrow> fl list" where
  "ewm_from alpha st [] = []"
| "ewm_from alpha st (cur # rest) =
     (let st' = ewm_step alpha st cur in fst st' # ewm_from alpha st' rest)"

definition ewm_mean :: "real \<Rightarrow> fl list \<Rightarrow> fl list" where
  "ewm_mean alpha xs =
     (case map inf_to_nan xs of [] \<Rightarrow> [] | x # rest \<Rightarrow> x # ewm_from alpha (x, 1) rest)"

section \<open>\<^verbatim>\<open>core/indicators.py\<close>\<close>

text \<open>
  The window is a natural number: pandas rejects a negative one. \<^verbatim>\<open>compute_ma\<close> asks
  for \<^verbatim>\<open>min_periods=1\<close>, which pandas rejects for a window of 0.
\<close>

definition compute_ma :: "fl list \<Rightarrow> nat \<Rightarrow> exn + fl list" where
  "compute_ma series window =
     (if window < 1 then Inl (Exn ''ValueError'' ''min_periods 1 must be <= window 0'')
      else Inr (rolling_mean window 1 series))"

definition rsi_of_rs :: "fl \<Rightarrow> fl" where
  \<comment> \<open>\<^verbatim>\<open>100 - (100 / (1 + rs))\<close>\<close>
  "rsi_of_rs rs = fsub (Fin 100) (fdiv (Fin 100) (fadd (Fin 1) rs))"

definition compute_rsi :: "fl list \<Rightarrow> nat \<Rightarrow> fl list" where
  "compute_rsi series window =
     (let delta = diff series;
          gain = map (clip_lower (Fin 0)) delta;
          loss = map (\<lambda>d. fneg (clip_upper (Fin 0) d)) delta;
          avg_gain = rolling_mean window window gain;
          avg_loss = rolling_mean window window loss;
          rs = map2 fdiv avg_gain (map (replace_val (Fin 0) PInf) avg_loss);
          rsi = map rsi_of_rs rs
      in map (fillna (Fin 50)) rsi)"

record macd_frame =
  macd_col :: "fl list"
  signal_col :: "fl list"
  hist_col :: "fl list"

definition compute_macd :: "fl list \<Rightarrow> macd_frame" where
  "compute_macd series =
     (let ema12 = ewm_mean (alpha_of_span 12) series;
          ema26 = ewm_mean (alpha_of_span 26) series;
          macd = map2 fsub ema12 ema26;
          signal = ewm_mean (alpha_of_span 9) macd;
          hist = map2 fsub macd signal
      in \<lparr>macd_col = macd, signal_col = signal, hist_col = hist\<rparr>)"

section \<open>\<^verbatim>\<open>core/model.py\<close>\<close>

text \<open>
  Lines 48 to 78 of \<^verbatim>\<open>predict_next_price\<close> scale the prices, train the LSTM from a
  random start and run it once. Their outcome is a parameter \<open>lstm\<close> of the model: from
  the filled prices and the three settings it either raises or gives the predicted
  price, the number of epochs trained and the loss history. Everything around those
  lines is modelled as written.
\<close>

type_synonym lstm = "fl list \<Rightarrow> int \<Rightarrow> int \<Rightarrow> int \<Rightarrow> exn + (fl \<times> int \<times> fl list)"

type_synonym meta = "(string \<times> pyval) list"

definition result_meta0 :: meta where
  \<comment> \<open>line 38\<close>
  "result_meta0 =
     [(''trained_epochs'', PInt 0), (''fallback'', PBool False), (''loss_history'', PFloats [])]"

definition truthy :: "fl \<Rightarrow> bool" where
  \<comment> \<open>a float in a condition: false for zero only\<close>
  "truthy x = (\<not> feq x (Fin 0))"

definition predict_next_price ::
    "lstm \<Rightarrow> fl list option \<Rightarrow> int \<Rightarrow> int \<Rightarrow> int \<Rightarrow> exn + (fl \<times> fl \<times> meta)" where
  "predict_next_price lstm series lookback epochs hidden_size =
     (case series of
        None \<Rightarrow> Inr (Fin 0, Fin 0, dict_set ''fallback'' (PBool True) result_meta0)
      | Some s \<Rightarrow>
          if s = [] then Inr (Fin 0, Fin 0, dict_set ''fallback'' (PBool True) result_meta0)
          else
            let closing = ffill s in
            if int (length closing) < lookback + 2 then
              bind_exn (iloc_last closing) (\<lambda>last_price.
                Inr (last_price, Fin 0,
                     dict_set ''reason'' (PStr ''insufficient_data'')
                       (dict_set ''fallback'' (PBool True) result_meta0)))
            else
              bind_exn (lstm closing lookback epochs hidden_size) (\<lambda>(pred_price, trained, losses).
              bind_exn (iloc_last closing) (\<lambda>last_price.
                let pct_change =
                      (if truthy last_price
                       then fdiv (fsub pred_price last_price) last_price else Fin 0)
                in Inr (pred_price, pct_change,
                        dict_set ''trained_epochs'' (PInt trained)
                          (dict_set ''loss_history'' (PFloats losses) result_meta0)))))"

section \<open>\<^verbatim>\<open>core/signal.py\<close>\<close>

text \<open>
  A cell of a data frame column holds a number, a text, or \<^verbatim>\<open>None\<close>. Two conversions
  read a cell: \<^verbatim>\<open>pd.to_numeric\<close> with \<^verbatim>\<open>errors="coerce"\<close>, which gives \<open>NaN\<close> for what it
  cannot read, and Python's \<^verbatim>\<open>float\<close>, which raises. A text that both read as the same
  number is written \<open>Num\<close>. \<open>FloatText x\<close> is a text that only \<^verbatim>\<open>float\<close> reads, as \<open>x\<close>
  (such as \<^verbatim>\<open>'1_000'\<close>); \<open>NonNumeric\<close> is a text that neither reads. A frame is the length
  of its index and its columns in order; a column label may occur more than once.
\<close>

datatype cell = Num fl | FloatText fl | NonNumeric | Missing

record dataframe =
  index_len :: nat
  cols :: "(string \<times> cell list) list"

definition df_wf :: "dataframe \<Rightarrow> bool" where
  "df_wf d = (list_all (\<lambda>c. length (snd c) = index_len d) (cols d) \<and> distinct (map fst (cols d)))"

definition df_empty :: "dataframe \<Rightarrow> bool" where
  \<comment> \<open>\<^verbatim>\<open>df.empty\<close>: an axis has length 0\<close>
  "df_empty d = (index_len d = 0 \<or> cols d = [])"

fun to_numeric :: "cell \<Rightarrow> fl" where
  \<comment> \<open>one cell of \<^verbatim>\<open>pd.to_numeric(col, errors="coerce")\<close>\<close>
  "to_numeric (Num x) = x"
| "to_numeric (FloatText x) = NaN"
| "to_numeric NonNumeric = NaN"
| "to_numeric Missing = NaN"

fun py_float :: "cell \<Rightarrow> exn + fl" where
  \<comment> \<open>\<^verbatim>\<open>float(v)\<close>; Python appends the offending text to the first message\<close>
  "py_float (Num x) = Inr x"
| "py_float (FloatText x) = Inr x"
| "py_float NonNumeric = Inl (Exn ''ValueError'' ''could not convert string to float'')"
| "py_float Missing =
     Inl (Exn ''TypeError'' ''float() argument must be a string or a real number'')"

record SignalResult =
  coin :: string
  signal :: string
  predicted_price :: fl
  predicted_change_pct :: fl
  indicators :: "(string \<times> fl) list"
  explanation :: "string list"
  model_meta :: meta
  fallback :: pyval

definition fallback_result :: "string \<Rightarrow> string \<Rightarrow> SignalResult" where
  "fallback_result coin_id reason =
     \<lparr>coin = coin_id,
      signal = ''HOLD'',
      predicted_price = Fin 0,
      predicted_change_pct = Fin 0,
      indicators = [(''rsi'', Fin 50), (''macd'', Fin 0), (''macd_signal'', Fin 0),
                    (''ma50'', Fin 0), (''ma200'', Fin 0), (''latest_close'', Fin 0)],
      explanation = [''Data harga tidak tersedia ('' @ reason @ '') -> fallback HOLD.''],
      model_meta = [(''fallback'', PBool True), (''reason'', PStr reason)],
      fallback = PBool True\<rparr>"

text \<open>
  Python's fixed-point formatting \<^verbatim>\<open>f"{x:.nf}"\<close> is a parameter \<open>fmt\<close>: \<open>fmt n x\<close> is the
  text of \<open>x\<close> with \<open>n\<close> decimals.
\<close>

definition build_explanation_lines ::
    "(nat \<Rightarrow> fl \<Rightarrow> string) \<Rightarrow> string \<Rightarrow> (string \<times> fl) list \<Rightarrow> fl \<Rightarrow> exn + string list" where
  "build_explanation_lines fmt sig inds pct_change =
     (let pct_txt = fmt 2 (fmul pct_change (Fin 100)) @ ''%'' in
      bind_exn (dict_get inds ''rsi'') (\<lambda>rsi.
      bind_exn (dict_get inds ''macd'') (\<lambda>m.
      bind_exn (dict_get inds ''macd_signal'') (\<lambda>ms.
      let macd_rel = fsub m ms in
      bind_exn (dict_get inds ''ma50'') (\<lambda>ma50.
      bind_exn (dict_get inds ''ma200'') (\<lambda>ma200.
      let trend = (if fgt ma50 ma200 then ''bullish'' else ''bearish'') in
      Inr [''RSI '' @ fmt 1 rsi @ '' -> momentum ''
             @ (if flt rsi (Fin 30) then ''oversold''
                else if fgt rsi (Fin 70) then ''overbought'' else ''netral'') @ ''.'',
           ''MACD spread '' @ fmt 4 macd_rel @ '' -> ''
             @ (if fgt macd_rel (Fin 0) then ''positif'' else ''negatif'')
             @ '' dibanding sinyal.'',
           ''MA50 vs MA200 menunjukkan tren '' @ trend @ ''.'',
           ''Model LSTM memperkirakan perubahan '' @ pct_txt @ ''.'',
           ''Rekomendasi akhir: '' @ sig @ ''.'']))))))"

text \<open>
  Lines 31 to 96 of \<^verbatim>\<open>hybrid_signal\<close>, reached when neither fallback applies: \<open>raw\<close> is
  the column \<^verbatim>\<open>df["close"]\<close> as stored and \<open>close\<close> the coerced and filled series.
  \<^verbatim>\<open>latest["close"]\<close> is the last stored cell. An exception of \<^verbatim>\<open>predict_next_price\<close>
  is caught (lines 43 to 46); nothing else is.
\<close>

definition hybrid_main ::
    "(nat \<Rightarrow> fl \<Rightarrow> string) \<Rightarrow> lstm \<Rightarrow> cell list \<Rightarrow> fl list \<Rightarrow> string \<Rightarrow> exn + SignalResult" where
  "hybrid_main fmt lstm raw close coin_id =
     (let rsi_series = compute_rsi close 14;
          macd_frame = compute_macd close in
      bind_exn (compute_ma close 50) (\<lambda>ma50.
      bind_exn (compute_ma close 200) (\<lambda>ma200.
      bind_exn (iloc_last raw) (\<lambda>latest_close.
      bind_exn (iloc_last rsi_series) (\<lambda>latest_rsi.
      bind_exn (iloc_last (macd_col macd_frame)) (\<lambda>latest_macd.
      bind_exn (iloc_last (signal_col macd_frame)) (\<lambda>latest_signal.
      bind_exn (iloc_last ma50) (\<lambda>latest_ma50.
      bind_exn (iloc_last ma200) (\<lambda>latest_ma200.
      bind_exn
        (case predict_next_price lstm (Some close) 30 3 48 of
           Inr t \<Rightarrow> Inr t
         | Inl e \<Rightarrow>
             bind_exn (py_float latest_close) (\<lambda>c.
               Inr (c, Fin 0, [(''fallback'', PBool True), (''reason'', PStr (str_exn e))])))
        (\<lambda>(pred_price, pct_change, meta).
      let score = tech_score latest_rsi latest_macd latest_signal latest_ma50 latest_ma200;
          base = base_signal score;
          final = final_signal base pct_change in
      bind_exn (py_float latest_close) (\<lambda>lc.
      let inds = [(''rsi'', latest_rsi), (''macd'', latest_macd),
                  (''macd_signal'', latest_signal), (''ma50'', latest_ma50),
                  (''ma200'', latest_ma200), (''latest_close'', lc)] in
      bind_exn (build_explanation_lines fmt final inds pct_change) (\<lambda>explain_lines.
      Inr \<lparr>coin = coin_id,
           signal = final,
           predicted_price = pred_price,
           predicted_change_pct = pct_change,
           indicators = inds,
           explanation = explain_lines,
           model_meta = meta,
           fallback = (case map_of meta ''fallback'' of Some v \<Rightarrow> v | None \<Rightarrow> PBool False)\<rparr>
      ))))))))))))"

text \<open>
  Lines 24 to 29: the two fallbacks, then the main path. When the label \<^verbatim>\<open>close\<close> occurs
  more than once, \<^verbatim>\<open>df["close"]\<close> is a frame and not a series, and \<^verbatim>\<open>pd.to_numeric\<close> at
  line 27 raises \<^verbatim>\<open>TypeError\<close>; nothing catches it.
\<close>

definition hybrid_signal ::
    "(nat \<Rightarrow> fl \<Rightarrow> string) \<Rightarrow> lstm \<Rightarrow> dataframe option \<Rightarrow> string \<Rightarrow> exn + SignalResult" where
  "hybrid_signal fmt lstm df coin_id =
     (case df of
        None \<Rightarrow> Inr (fallback_result coin_id ''no_data'')
      | Some d \<Rightarrow>
          if df_empty d then Inr (fallback_result coin_id ''no_data'')
          else
            (case map_of (cols d) ''close'' of
               None \<Rightarrow> Inr (fallback_result coin_id ''no_data'')
             | Some raw \<Rightarrow>
                 if 1 < count_list (map fst (cols d)) ''close''
                 then Inl (Exn ''TypeError''
                             ''arg must be a list, tuple, 1-d array, or Series'')
                 else
                   let close = ffill (map to_numeric raw) in
                   if list_all isnan close
                   then Inr (fallback_result coin_id ''invalid_close_series'')
                   else hybrid_main fmt lstm raw close coin_id))"

section \<open>Vocabulary of the properties\<close>

text \<open>
  The last price observed in a series: its last value that is not missing, and \<open>NaN\<close>
  when every value is missing.
\<close>

definition last_observed :: "fl list \<Rightarrow> fl" where
  "last_observed xs =
     (case filter (\<lambda>x. \<not> isnan x) xs of [] \<Rightarrow> NaN | y # ys \<Rightarrow> last (y # ys))"


section \<open>Properties of the decision rules\<close>

lemma flt_irrefl_pair: "\<not> (flt x y \<and> flt y x)"
  by (cases x; cases y) auto

lemma rsi_bands_exclusive: "\<not> (flt r (Fin 30) \<and> fgt r (Fin 70))"
  by (cases r) (auto simp: fgt_def)

section \<open>Lengths and filling\<close>

lemma length_ffill_from [simp]: "length (ffill_from p xs) = length xs"
  by (induction xs arbitrary: p) auto

lemma length_ffill [simp]: "length (ffill xs) = length xs"
  by (simp add: ffill_def)

lemma ffill_eq_Nil [simp]: "(ffill xs = []) = (xs = [])"
  by (cases xs) (auto simp: ffill_def)

lemma all_nan_ffill_from:
  "list_all isnan (ffill_from p xs) = (xs = [] \<or> (isnan p \<and> list_all isnan xs))"
  by (induction xs arbitrary: p) auto

lemma all_nan_ffill: "list_all isnan (ffill xs) = list_all isnan xs"
  by (cases xs) (auto simp: ffill_def all_nan_ffill_from isnan_def)

lemma last_ffill_from:
  "xs \<noteq> [] \<Longrightarrow>
     last (ffill_from p xs) =
       (case filter (\<lambda>x. \<not> isnan x) xs of [] \<Rightarrow> p | y # ys \<Rightarrow> last (y # ys))"
proof (induction xs arbitrary: p)
  case Nil
  then show ?case by simp
next
  case (Cons x xs)
  show ?case
  proof (cases "xs = []")
    case True
    then show ?thesis by simp
  next
    case False
    then have ne: "ffill_from q xs \<noteq> []" for q
      by (cases xs) auto
    from False Cons.IH show ?thesis
      by (auto simp: ne split: list.splits)
  qed
qed

lemma last_ffill: "xs \<noteq> [] \<Longrightarrow> last (ffill xs) = last_observed xs"
  by (simp add: ffill_def last_observed_def last_ffill_from)

lemma length_diff_from [simp]: "length (diff_from p xs) = length xs"
  by (induction xs arbitrary: p) auto

lemma length_diff [simp]: "length (diff xs) = length xs"
  by (cases xs) (auto simp: diff_def)

lemma length_rolling_mean [simp]: "length (rolling_mean w m xs) = length xs"
  by (simp add: rolling_mean_def)

lemma length_ewm_from [simp]: "length (ewm_from alpha st xs) = length xs"
  by (induction xs arbitrary: st) (auto simp: Let_def)

lemma length_ewm_mean [simp]: "length (ewm_mean alpha xs) = length xs"
  by (cases xs) (auto simp: ewm_mean_def)

lemma length_compute_rsi [simp]: "length (compute_rsi s w) = length s"
  by (simp add: compute_rsi_def Let_def)

lemma length_macd_col [simp]: "length (macd_col (compute_macd s)) = length s"
  by (simp add: compute_macd_def Let_def)

lemma length_signal_col [simp]: "length (signal_col (compute_macd s)) = length s"
  by (simp add: compute_macd_def Let_def)

text \<open>The recursion of the exponential average, one step at a time.\<close>

lemma ewm_from_Cons:
  "ewm_from alpha st (cur # rest) =
     fst (ewm_step alpha st cur) # ewm_from alpha (ewm_step alpha st cur) rest"
  by (simp add: Let_def)

lemma ewm_step_Fin:
  "ewm_step alpha (Fin w, 1) (Fin c) =
     ((if w = c then Fin w else Fin ((1 - alpha) * w + alpha * c)), 1)"
  by (simp add: ewm_step_def Let_def isnan_def feq_def)

section \<open>Properties of \<^verbatim>\<open>predict_next_price\<close>\<close>

text \<open>
  C4. For every series that is not empty and whose forward-filled length is below
  \<open>lookback + 2\<close>, \<^verbatim>\<open>predict_next_price\<close> returns the last observed price with a predicted
  change of 0.0 and a meta dictionary in which \<open>trained_epochs\<close> is 0, \<open>fallback\<close> is true
  and \<open>reason\<close> is \<open>insufficient_data\<close>. The result is the same whatever the training
  would have done: the training is not run.
\<close>

theorem insufficient_data_fallback:
  assumes "s \<noteq> []" and "int (length (ffill s)) < lookback + 2"
  shows "predict_next_price lstm (Some s) lookback epochs hidden_size =
           Inr (last_observed s, Fin 0,
                [(''trained_epochs'', PInt 0), (''fallback'', PBool True),
                 (''loss_history'', PFloats []), (''reason'', PStr ''insufficient_data'')])"
  using assms
  by (simp add: predict_next_price_def Let_def iloc_last_def result_meta0_def last_ffill
      del: length_ffill)

theorem insufficient_data_fallback_witness:
  "predict_next_price (\<lambda>c l e h. Inl (Exn ''RuntimeError'' ''unused'')) (Some [Fin 7, NaN, Fin 9, NaN]) 30 3 48 =
           Inr (Fin 9, Fin 0,
                [(''trained_epochs'', PInt 0), (''fallback'', PBool True),
                 (''loss_history'', PFloats []), (''reason'', PStr ''insufficient_data'')])"
proof -
  have a: "[Fin 7, NaN, Fin 9, NaN] \<noteq> []" by simp
  have b: "int (length (ffill [Fin 7, NaN, Fin 9, NaN])) < 30 + 2" by simp
  have c: "last_observed [Fin 7, NaN, Fin 9, NaN] = Fin 9"
    by (simp add: last_observed_def isnan_def)
  from insufficient_data_fallback [OF a b, of "\<lambda>c l e h. Inl (Exn ''RuntimeError'' ''unused'')" 3 48] c
  show ?thesis by simp
qed

text \<open>
  C10. For a series that is \<^verbatim>\<open>None\<close> or empty, \<^verbatim>\<open>predict_next_price\<close> returns the price
  0.0, the change 0.0 and a meta dictionary with \<open>trained_epochs\<close> 0, \<open>fallback\<close> true and an
  empty loss history; the dictionary has no \<open>reason\<close> key.
\<close>

theorem empty_series_forecast:
  "predict_next_price lstm None lookback epochs hidden_size =
     Inr (Fin 0, Fin 0,
          [(''trained_epochs'', PInt 0), (''fallback'', PBool True), (''loss_history'', PFloats [])])
   \<and> predict_next_price lstm (Some []) lookback epochs hidden_size =
     Inr (Fin 0, Fin 0,
          [(''trained_epochs'', PInt 0), (''fallback'', PBool True), (''loss_history'', PFloats [])])
   \<and> map_of [(''trained_epochs'', PInt 0), (''fallback'', PBool True), (''loss_history'', PFloats [])]
        ''reason'' = None"
  by (simp add: predict_next_price_def result_meta0_def)

section \<open>The main path of \<^verbatim>\<open>hybrid_signal\<close>\<close>

lemma iloc_last_Inr: "xs \<noteq> [] \<Longrightarrow> iloc_last xs = Inr (last xs)"
  by (simp add: iloc_last_def)

lemma nonempty_by_length: "length xs = length ys \<Longrightarrow> ys \<noteq> [] \<Longrightarrow> xs \<noteq> []"
  by auto



lemma build_explanation_lines_full:
  "build_explanation_lines fmt sg
      [(''rsi'', a), (''macd'', b), (''macd_signal'', c), (''ma50'', d), (''ma200'', e),
       (''latest_close'', f)] pct =
   Inr [''RSI '' @ fmt 1 a @ '' -> momentum ''
          @ (if flt a (Fin 30) then ''oversold''
             else if fgt a (Fin 70) then ''overbought'' else ''netral'') @ ''.'',
        ''MACD spread '' @ fmt 4 (fsub b c) @ '' -> ''
          @ (if fgt (fsub b c) (Fin 0) then ''positif'' else ''negatif'')
          @ '' dibanding sinyal.'',
        ''MA50 vs MA200 menunjukkan tren '' @ (if fgt d e then ''bullish'' else ''bearish'') @ ''.'',
        ''Model LSTM memperkirakan perubahan '' @ fmt 2 (fmul pct (Fin 100)) @ ''%'' @ ''.'',
        ''Rekomendasi akhir: '' @ sg @ ''.'']"
  by (simp add: build_explanation_lines_def dict_get_def Let_def)

lemma hybrid_main_ok:
  assumes ne: "raw \<noteq> []" and len: "length close = length raw"
    and num: "py_float (last raw) = Inr lc"
  shows "\<exists>r pct. hybrid_main fmt lstm raw close coin_id = Inr r
            \<and> signal r = final_signal (base_signal (tech_score
                 (last (compute_rsi close 14))
                 (last (macd_col (compute_macd close)))
                 (last (signal_col (compute_macd close)))
                 (last (rolling_mean 50 1 close))
                 (last (rolling_mean 200 1 close)))) pct
            \<and> predicted_change_pct r = pct
            \<and> map_of (indicators r) ''rsi'' = Some (last (compute_rsi close 14))
            \<and> indicators r =
                [(''rsi'', last (compute_rsi close 14)),
                 (''macd'', last (macd_col (compute_macd close))),
                 (''macd_signal'', last (signal_col (compute_macd close))),
                 (''ma50'', last (rolling_mean 50 1 close)),
                 (''ma200'', last (rolling_mean 200 1 close)),
                 (''latest_close'', lc)]"
proof -
  from ne len have c: "close \<noteq> []" by auto
  have l1: "iloc_last raw = Inr (last raw)"
    using ne by (rule iloc_last_Inr)
  have l2: "iloc_last (compute_rsi close 14) = Inr (last (compute_rsi close 14))"
    using c by (intro iloc_last_Inr) (auto dest: arg_cong [where f = length])
  have l3: "iloc_last (macd_col (compute_macd close)) = Inr (last (macd_col (compute_macd close)))"
    using c by (intro iloc_last_Inr) (auto dest: arg_cong [where f = length])
  have l4: "iloc_last (signal_col (compute_macd close)) = Inr (last (signal_col (compute_macd close)))"
    using c by (intro iloc_last_Inr) (auto dest: arg_cong [where f = length])
  have l5: "iloc_last (rolling_mean w m close) = Inr (last (rolling_mean w m close))" for w m
    using c by (intro iloc_last_Inr) (auto dest: arg_cong [where f = length])
  obtain pred pct meta where p:
    "(case predict_next_price lstm (Some close) 30 3 48 of
           Inr t \<Rightarrow> Inr t
         | Inl e \<Rightarrow>
             bind_exn (py_float (last raw)) (\<lambda>c.
               Inr (c, Fin 0, [(''fallback'', PBool True), (''reason'', PStr (str_exn e))])))
      = Inr (pred, pct, meta)"
    by (cases "predict_next_price lstm (Some close) 30 3 48") (auto simp: num)
  show ?thesis
    by (simp add: hybrid_main_def Let_def compute_ma_def l1 l2 l3 l4 l5 p num build_explanation_lines_full)
qed

lemma hybrid_main_raises:
  assumes ne: "raw \<noteq> []" and len: "length close = length raw"
    and bad: "py_float (last raw) = Inl e"
  shows "hybrid_main fmt lstm raw close coin_id = Inl e"
proof -
  from ne len have c: "close \<noteq> []" by auto
  have l1: "iloc_last raw = Inr (last raw)"
    using ne by (rule iloc_last_Inr)
  have l2: "iloc_last (compute_rsi close 14) = Inr (last (compute_rsi close 14))"
    using c by (intro iloc_last_Inr) (auto dest: arg_cong [where f = length])
  have l3: "iloc_last (macd_col (compute_macd close)) = Inr (last (macd_col (compute_macd close)))"
    using c by (intro iloc_last_Inr) (auto dest: arg_cong [where f = length])
  have l4: "iloc_last (signal_col (compute_macd close)) = Inr (last (signal_col (compute_macd close)))"
    using c by (intro iloc_last_Inr) (auto dest: arg_cong [where f = length])
  have l5: "iloc_last (rolling_mean w m close) = Inr (last (rolling_mean w m close))" for w m
    using c by (intro iloc_last_Inr) (auto dest: arg_cong [where f = length])
  show ?thesis
    by (cases "predict_next_price lstm (Some close) 30 3 48")
       (auto simp: hybrid_main_def Let_def compute_ma_def l1 l2 l3 l4 l5 bad)
qed


lemma count_list_distinct: "distinct xs \<Longrightarrow> count_list xs x \<le> 1"
  by (induction xs) (auto simp: count_list_0_iff)

lemma df_wf_close_once: "df_wf d \<Longrightarrow> \<not> 1 < count_list (map fst (cols d)) ''close''"
  using count_list_distinct [of "map fst (cols d)" "''close''"]
  by (simp add: df_wf_def)

lemma hybrid_signal_main_path:
  assumes "df_wf d" and "\<not> df_empty d" and "map_of (cols d) ''close'' = Some raw"
    and "\<not> list_all isnan (ffill (map to_numeric raw))"
  shows "hybrid_signal fmt lstm (Some d) coin_id =
           hybrid_main fmt lstm raw (ffill (map to_numeric raw)) coin_id"
  using assms df_wf_close_once [of d]
  by (simp add: hybrid_signal_def Let_def)

section \<open>Properties of \<^verbatim>\<open>hybrid_signal\<close>\<close>

text \<open>
  C1. For every five latest indicator values the technical score is the sum of three
  contributions, one per indicator and each in \<open>{-1, 0, 1}\<close>: \<open>+1\<close> for \<open>rsi < 30\<close>,
  \<open>-1\<close> for \<open>rsi > 70\<close>; \<open>+1\<close> for \<open>macd > macd_signal\<close>, \<open>-1\<close> for
  \<open>macd < macd_signal\<close>; \<open>+1\<close> for \<open>ma50 > ma200\<close>, \<open>-1\<close> for \<open>ma50 < ma200\<close>.
  It lies in \<open>[-3, 3]\<close>, and the base signal is BUY from 2 upwards, SELL from -2
  downwards and HOLD in between. On its main path \<^verbatim>\<open>hybrid_signal\<close> applies this rule
  to the latest value of each indicator series: for a well-formed frame that passes both
  fallback checks and whose last close cell converts to a float, it returns a result
  whose indicators are those latest values and whose signal is the forecast override of
  the base signal of their score.
\<close>

theorem tech_score_rule:
  "tech_score r m s a b =
       (if flt r (Fin 30) then 1 else if fgt r (Fin 70) then - 1 else 0)
     + (if fgt m s then 1 else if flt m s then - 1 else 0)
     + (if fgt a b then 1 else if flt a b then - 1 else 0)
   \<and> - 3 \<le> tech_score r m s a b \<and> tech_score r m s a b \<le> 3
   \<and> (tech_score r m s a b \<ge> 2 \<longrightarrow> base_signal (tech_score r m s a b) = ''BUY'')
   \<and> (tech_score r m s a b \<le> - 2 \<longrightarrow> base_signal (tech_score r m s a b) = ''SELL'')
   \<and> (- 2 < tech_score r m s a b \<and> tech_score r m s a b < 2
        \<longrightarrow> base_signal (tech_score r m s a b) = ''HOLD'')
   \<and> (df_wf d \<and> \<not> df_empty d \<and> map_of (cols d) ''close'' = Some raw
        \<and> \<not> list_all isnan (ffill (map to_numeric raw)) \<and> py_float (last raw) = Inr lc
       \<longrightarrow> (\<exists>res. hybrid_signal fmt lstm (Some d) coin_id = Inr res
              \<and> indicators res =
                  [(''rsi'', last (compute_rsi (ffill (map to_numeric raw)) 14)),
                   (''macd'', last (macd_col (compute_macd (ffill (map to_numeric raw))))),
                   (''macd_signal'', last (signal_col (compute_macd (ffill (map to_numeric raw))))),
                   (''ma50'', last (rolling_mean 50 1 (ffill (map to_numeric raw)))),
                   (''ma200'', last (rolling_mean 200 1 (ffill (map to_numeric raw)))),
                   (''latest_close'', lc)]
              \<and> signal res =
                  final_signal
                    (base_signal (tech_score
                       (last (compute_rsi (ffill (map to_numeric raw)) 14))
                       (last (macd_col (compute_macd (ffill (map to_numeric raw)))))
                       (last (signal_col (compute_macd (ffill (map to_numeric raw)))))
                       (last (rolling_mean 50 1 (ffill (map to_numeric raw))))
                       (last (rolling_mean 200 1 (ffill (map to_numeric raw))))))
                    (predicted_change_pct res)))"
proof -
  let ?close = "ffill (map to_numeric raw)"
  have excl_r: "\<not> (flt r (Fin 30) \<and> fgt r (Fin 70))"
    by (rule rsi_bands_exclusive)
  have excl_m: "\<not> (fgt m s \<and> flt m s)"
    using flt_irrefl_pair [of s m] by (auto simp: fgt_def)
  have excl_a: "\<not> (fgt a b \<and> flt a b)"
    using flt_irrefl_pair [of b a] by (auto simp: fgt_def)
  have rule: "tech_score r m s a b =
       (if flt r (Fin 30) then 1 else if fgt r (Fin 70) then - 1 else 0)
     + (if fgt m s then 1 else if flt m s then - 1 else 0)
     + (if fgt a b then 1 else if flt a b then - 1 else 0)
   \<and> - 3 \<le> tech_score r m s a b \<and> tech_score r m s a b \<le> 3
   \<and> (tech_score r m s a b \<ge> 2 \<longrightarrow> base_signal (tech_score r m s a b) = ''BUY'')
   \<and> (tech_score r m s a b \<le> - 2 \<longrightarrow> base_signal (tech_score r m s a b) = ''SELL'')
   \<and> (- 2 < tech_score r m s a b \<and> tech_score r m s a b < 2
        \<longrightarrow> base_signal (tech_score r m s a b) = ''HOLD'')"
    using excl_r excl_m excl_a
    by (auto simp: tech_score_def base_signal_def Let_def)
  have main: "\<exists>res. hybrid_signal fmt lstm (Some d) coin_id = Inr res
              \<and> indicators res =
                  [(''rsi'', last (compute_rsi ?close 14)),
                   (''macd'', last (macd_col (compute_macd ?close))),
                   (''macd_signal'', last (signal_col (compute_macd ?close))),
                   (''ma50'', last (rolling_mean 50 1 ?close)),
                   (''ma200'', last (rolling_mean 200 1 ?close)),
                   (''latest_close'', lc)]
              \<and> signal res =
                  final_signal
                    (base_signal (tech_score
                       (last (compute_rsi ?close 14))
                       (last (macd_col (compute_macd ?close)))
                       (last (signal_col (compute_macd ?close)))
                       (last (rolling_mean 50 1 ?close))
                       (last (rolling_mean 200 1 ?close))))
                    (predicted_change_pct res)"
    if h: "df_wf d" "\<not> df_empty d" "map_of (cols d) ''close'' = Some raw"
      "\<not> list_all isnan ?close" "py_float (last raw) = Inr lc"
  proof -
    have hs: "hybrid_signal fmt lstm (Some d) coin_id = hybrid_main fmt lstm raw ?close coin_id"
      using h(1-4) by (rule hybrid_signal_main_path)
    from h(4) have ne: "raw \<noteq> []"
      by (auto simp: ffill_def)
    have len: "length ?close = length raw" by simp
    from hybrid_main_ok [OF ne len h(5), of fmt lstm coin_id] hs show ?thesis
      by auto
  qed
  from rule main show ?thesis by blast
qed

theorem tech_score_rule_witness:
  "tech_score (Fin 25) (Fin 2) (Fin 1) (Fin 3) (Fin 1) = 3
   \<and> base_signal (tech_score (Fin 25) (Fin 2) (Fin 1) (Fin 3) (Fin 1)) = ''BUY''
   \<and> (\<exists>res. hybrid_signal (\<lambda>n x. ''?'') (\<lambda>c l e h. Inl (Exn ''RuntimeError'' ''unused''))
             (Some \<lparr>index_len = 16, cols = [(''close'',
                [Num (Fin 1), Num (Fin 2), Num (Fin 3), Num (Fin 4), Num (Fin 5), Num (Fin 6),
                 Num (Fin 7), Num (Fin 8), Num (Fin 9), Num (Fin 10), Num (Fin 11),
                 Num (Fin 12), Num (Fin 13), Num (Fin 14), Num (Fin 15), Num (Fin 16)])]\<rparr>)
             ''bitcoin'' = Inr res
          \<and> map_of (indicators res) ''rsi'' = Some (Fin 0)
          \<and> map_of (indicators res) ''latest_close'' = Some (Fin 16)
          \<and> signal res = ''BUY'')"
proof -
  let ?fmt = "\<lambda>(n::nat) (x::fl). ''?''"
  let ?lstm = "\<lambda>(c::fl list) (l::int) (e::int) (h::int).
      Inl (Exn ''RuntimeError'' ''unused'') :: exn + (fl \<times> int \<times> fl list)"
  let ?raw = "[Num (Fin 1), Num (Fin 2), Num (Fin 3), Num (Fin 4), Num (Fin 5), Num (Fin 6),
                 Num (Fin 7), Num (Fin 8), Num (Fin 9), Num (Fin 10), Num (Fin 11),
                 Num (Fin 12), Num (Fin 13), Num (Fin 14), Num (Fin 15), Num (Fin 16)]"
  let ?d = "\<lparr>index_len = 16, cols = [(''close'', ?raw)]\<rparr>"
  let ?close = "ffill (map to_numeric ?raw)"
  note h = tech_score_rule [of "Fin 25" "Fin 2" "Fin 1" "Fin 3" "Fin 1" ?d ?raw "Fin 16"
      ?fmt ?lstm "''bitcoin''"]
  from h have e: "tech_score (Fin 25) (Fin 2) (Fin 1) (Fin 3) (Fin 1) = 3"
    by (simp add: fgt_def)
  from h have "tech_score (Fin 25) (Fin 2) (Fin 1) (Fin 3) (Fin 1) \<ge> 2 \<longrightarrow>
      base_signal (tech_score (Fin 25) (Fin 2) (Fin 1) (Fin 3) (Fin 1)) = ''BUY''"
    by blast
  with e have b: "base_signal (tech_score (Fin 25) (Fin 2) (Fin 1) (Fin 3) (Fin 1)) = ''BUY''"
    by simp
  have p: "df_wf ?d \<and> \<not> df_empty ?d \<and> map_of (cols ?d) ''close'' = Some ?raw
        \<and> \<not> list_all isnan ?close \<and> py_float (last ?raw) = Inr (Fin 16)"
    by (simp add: df_wf_def df_empty_def ffill_def isnan_def)
  let ?cl = "[Fin 1, Fin 2, Fin 3, Fin 4, Fin 5, Fin 6, Fin 7, Fin 8, Fin 9, Fin 10,
      Fin 11, Fin 12, Fin 13, Fin 14, Fin 15, Fin 16]"
  have c: "?close = ?cl"
    by (simp add: ffill_def isnan_def)
  have rsi': "last (compute_rsi ?cl 14) = Fin 0"
    by code_simp
  have ma': "last (rolling_mean 50 1 ?cl) = last (rolling_mean 200 1 ?cl)"
    by code_simp
  have macd': "flt (last (signal_col (compute_macd ?cl))) (last (macd_col (compute_macd ?cl)))"
    by (simp add: compute_macd_def ewm_mean_def ewm_from_Cons ewm_step_Fin alpha_of_span_def
        Let_def fsub_def del: ewm_from.simps(2))
  have "tech_score
       (last (compute_rsi ?cl 14))
       (last (macd_col (compute_macd ?cl)))
       (last (signal_col (compute_macd ?cl)))
       (last (rolling_mean 50 1 ?cl))
       (last (rolling_mean 200 1 ?cl)) = 2"
    unfolding rsi' ma'
    using macd' flt_irrefl_pair [of "last (signal_col (compute_macd ?cl))"
        "last (macd_col (compute_macd ?cl))"]
    by (simp add: tech_score_def fgt_def Let_def)
  then have sc: "tech_score
       (last (compute_rsi ?close 14))
       (last (macd_col (compute_macd ?close)))
       (last (signal_col (compute_macd ?close)))
       (last (rolling_mean 50 1 ?close))
       (last (rolling_mean 200 1 ?close)) = 2"
    unfolding c .
  have rsi: "last (compute_rsi ?close 14) = Fin 0"
    unfolding c by (rule rsi')
  from h p obtain res where res: "hybrid_signal ?fmt ?lstm (Some ?d) ''bitcoin'' = Inr res"
    and ind: "indicators res =
                  [(''rsi'', last (compute_rsi ?close 14)),
                   (''macd'', last (macd_col (compute_macd ?close))),
                   (''macd_signal'', last (signal_col (compute_macd ?close))),
                   (''ma50'', last (rolling_mean 50 1 ?close)),
                   (''ma200'', last (rolling_mean 200 1 ?close)),
                   (''latest_close'', Fin 16)]"
    and sg: "signal res =
                  final_signal
                    (base_signal (tech_score
                       (last (compute_rsi ?close 14))
                       (last (macd_col (compute_macd ?close)))
                       (last (signal_col (compute_macd ?close)))
                       (last (rolling_mean 50 1 ?close))
                       (last (rolling_mean 200 1 ?close))))
                    (predicted_change_pct res)"
    by blast
  have "signal res = ''BUY''"
    unfolding sg sc by (simp add: base_signal_def final_signal_def)
  moreover have "map_of (indicators res) ''rsi'' = Some (last (compute_rsi ?close 14))"
    unfolding ind by simp
  then have "map_of (indicators res) ''rsi'' = Some (Fin 0)"
    unfolding rsi .
  moreover have "map_of (indicators res) ''latest_close'' = Some (Fin 16)"
    unfolding ind by simp
  ultimately show ?thesis
    using e b res by blast
qed

text \<open>
  C3. The fallback chain is checked in order. A frame that is absent, empty or without a
  close column gives the fallback result with reason \<open>no_data\<close>. Otherwise, for a
  well-formed frame (columns as long as the index, no label twice) in which every close
  value is missing after coercion, the result is the fallback result with reason
  \<open>invalid_close_series\<close>. Both results have the signal HOLD, every indicator 0.0 except
  \<open>rsi\<close> = 50.0, predicted price and change 0.0, one explanation line that states the
  reason, and \<open>fallback\<close> true.
\<close>

theorem fallback_chain:
  "((df = None \<or> (\<exists>d. df = Some d \<and> (df_empty d \<or> map_of (cols d) ''close'' = None)))
      \<longrightarrow> hybrid_signal fmt lstm df coin_id =
           Inr \<lparr>coin = coin_id, signal = ''HOLD'', predicted_price = Fin 0,
                predicted_change_pct = Fin 0,
                indicators = [(''rsi'', Fin 50), (''macd'', Fin 0), (''macd_signal'', Fin 0),
                              (''ma50'', Fin 0), (''ma200'', Fin 0), (''latest_close'', Fin 0)],
                explanation = [''Data harga tidak tersedia (no_data) -> fallback HOLD.''],
                model_meta = [(''fallback'', PBool True), (''reason'', PStr ''no_data'')],
                fallback = PBool True\<rparr>)
   \<and> ((\<exists>d raw. df = Some d \<and> df_wf d \<and> \<not> df_empty d
           \<and> map_of (cols d) ''close'' = Some raw
           \<and> list_all (\<lambda>c. isnan (to_numeric c)) raw)
      \<longrightarrow> hybrid_signal fmt lstm df coin_id =
           Inr \<lparr>coin = coin_id, signal = ''HOLD'', predicted_price = Fin 0,
                predicted_change_pct = Fin 0,
                indicators = [(''rsi'', Fin 50), (''macd'', Fin 0), (''macd_signal'', Fin 0),
                              (''ma50'', Fin 0), (''ma200'', Fin 0), (''latest_close'', Fin 0)],
                explanation =
                  [''Data harga tidak tersedia (invalid_close_series) -> fallback HOLD.''],
                model_meta =
                  [(''fallback'', PBool True), (''reason'', PStr ''invalid_close_series'')],
                fallback = PBool True\<rparr>)"
proof (intro conjI impI)
  assume "df = None \<or> (\<exists>d. df = Some d \<and> (df_empty d \<or> map_of (cols d) ''close'' = None))"
  then show "hybrid_signal fmt lstm df coin_id =
           Inr \<lparr>coin = coin_id, signal = ''HOLD'', predicted_price = Fin 0,
                predicted_change_pct = Fin 0,
                indicators = [(''rsi'', Fin 50), (''macd'', Fin 0), (''macd_signal'', Fin 0),
                              (''ma50'', Fin 0), (''ma200'', Fin 0), (''latest_close'', Fin 0)],
                explanation = [''Data harga tidak tersedia (no_data) -> fallback HOLD.''],
                model_meta = [(''fallback'', PBool True), (''reason'', PStr ''no_data'')],
                fallback = PBool True\<rparr>"
    by (auto simp: hybrid_signal_def fallback_result_def)
next
  assume "\<exists>d raw. df = Some d \<and> df_wf d \<and> \<not> df_empty d
           \<and> map_of (cols d) ''close'' = Some raw
           \<and> list_all (\<lambda>c. isnan (to_numeric c)) raw"
  then obtain d raw where d: "df = Some d" "\<not> df_empty d" "map_of (cols d) ''close'' = Some raw"
    and wf: "df_wf d"
    and nan: "list_all (\<lambda>c. isnan (to_numeric c)) raw"
    by blast
  note once = df_wf_close_once [OF wf]
  from nan have "list_all isnan (map to_numeric raw)"
    by (simp add: list_all_iff)
  then have "list_all isnan (ffill (map to_numeric raw))"
    by (simp only: all_nan_ffill)
  with d once show "hybrid_signal fmt lstm df coin_id =
           Inr \<lparr>coin = coin_id, signal = ''HOLD'', predicted_price = Fin 0,
                predicted_change_pct = Fin 0,
                indicators = [(''rsi'', Fin 50), (''macd'', Fin 0), (''macd_signal'', Fin 0),
                              (''ma50'', Fin 0), (''ma200'', Fin 0), (''latest_close'', Fin 0)],
                explanation =
                  [''Data harga tidak tersedia (invalid_close_series) -> fallback HOLD.''],
                model_meta =
                  [(''fallback'', PBool True), (''reason'', PStr ''invalid_close_series'')],
                fallback = PBool True\<rparr>"
    by (simp add: hybrid_signal_def fallback_result_def Let_def)
qed

theorem fallback_chain_witness:
  "hybrid_signal (\<lambda>n x. ''?'') (\<lambda>c l e h. Inl (Exn ''RuntimeError'' ''unused''))
       (Some \<lparr>index_len = 0, cols = [(''close'', [])]\<rparr>) ''bitcoin'' =
           Inr \<lparr>coin = ''bitcoin'', signal = ''HOLD'', predicted_price = Fin 0,
                predicted_change_pct = Fin 0,
                indicators = [(''rsi'', Fin 50), (''macd'', Fin 0), (''macd_signal'', Fin 0),
                              (''ma50'', Fin 0), (''ma200'', Fin 0), (''latest_close'', Fin 0)],
                explanation = [''Data harga tidak tersedia (no_data) -> fallback HOLD.''],
                model_meta = [(''fallback'', PBool True), (''reason'', PStr ''no_data'')],
                fallback = PBool True\<rparr>
   \<and> hybrid_signal (\<lambda>n x. ''?'') (\<lambda>c l e h. Inl (Exn ''RuntimeError'' ''unused''))
       (Some \<lparr>index_len = 2, cols = [(''close'', [NonNumeric, Missing])]\<rparr>) ''bitcoin'' =
           Inr \<lparr>coin = ''bitcoin'', signal = ''HOLD'', predicted_price = Fin 0,
                predicted_change_pct = Fin 0,
                indicators = [(''rsi'', Fin 50), (''macd'', Fin 0), (''macd_signal'', Fin 0),
                              (''ma50'', Fin 0), (''ma200'', Fin 0), (''latest_close'', Fin 0)],
                explanation =
                  [''Data harga tidak tersedia (invalid_close_series) -> fallback HOLD.''],
                model_meta =
                  [(''fallback'', PBool True), (''reason'', PStr ''invalid_close_series'')],
                fallback = PBool True\<rparr>"
proof -
  let ?fmt = "\<lambda>(n::nat) (x::fl). ''?''"
  let ?lstm = "\<lambda>(c::fl list) (l::int) (e::int) (h::int). Inl (Exn ''RuntimeError'' ''unused'') :: exn + (fl \<times> int \<times> fl list)"
  let ?d1 = "\<lparr>index_len = 0, cols = [(''close'', [] :: cell list)]\<rparr>"
  let ?d2 = "\<lparr>index_len = 2, cols = [(''close'', [NonNumeric, Missing])]\<rparr>"
  have h1: "Some ?d1 = None \<or> (\<exists>d. Some ?d1 = Some d \<and> (df_empty d \<or> map_of (cols d) ''close'' = None))"
    by (simp add: df_empty_def)
  have h2: "\<exists>d raw. Some ?d2 = Some d \<and> df_wf d \<and> \<not> df_empty d
           \<and> map_of (cols d) ''close'' = Some raw
           \<and> list_all (\<lambda>c. isnan (to_numeric c)) raw"
    by (simp add: df_empty_def df_wf_def isnan_def)
  from fallback_chain [of "Some ?d1" ?fmt ?lstm "''bitcoin''"] h1
       fallback_chain [of "Some ?d2" ?fmt ?lstm "''bitcoin''"] h2
  show ?thesis by blast
qed




text \<open>
  C8 (the code departs from the claim). The frame whose close column holds the number 1.0
  and then a text that is not a number passes both fallback checks, since the coerced and
  filled series is \<open>[1.0, 1.0]\<close>. Line 82 then converts the last stored cell, not the
  coerced one, with \<^verbatim>\<open>float\<close>, and the \<^verbatim>\<open>ValueError\<close> leaves \<^verbatim>\<open>hybrid_signal\<close>.
\<close>

theorem raw_last_cell_raises:
  "df_wf \<lparr>index_len = 2, cols = [(''close'', [Num (Fin 1), NonNumeric])]\<rparr>
   \<and> hybrid_signal fmt lstm
         (Some \<lparr>index_len = 2, cols = [(''close'', [Num (Fin 1), NonNumeric])]\<rparr>) coin_id =
       Inl (Exn ''ValueError'' ''could not convert string to float'')"
proof -
  have "hybrid_main fmt lstm [Num (Fin 1), NonNumeric]
          (ffill (map to_numeric [Num (Fin 1), NonNumeric])) coin_id
      = Inl (Exn ''ValueError'' ''could not convert string to float'')"
    by (rule hybrid_main_raises) simp_all
  then show ?thesis
    by (simp add: hybrid_signal_def df_empty_def df_wf_def Let_def ffill_def isnan_def)
qed

section \<open>The range of the RSI\<close>












section \<open>The RSI where there is no loss\<close>

lemma zero_loss_gives_zero:
  "fillna (Fin 50) (rsi_of_rs (fdiv (Fin g) (replace_val (Fin 0) PInf (Fin 0)))) = Fin 0"
  by (simp add: replace_val_def feq_def rsi_of_rs_def fsub_def fillna_def isnan_def)

text \<open>
  C6 (the code departs from the claim). On sixteen prices that rise by 1 each step the
  average loss over the window is 0 at positions 14 and 15, where the window is complete.
  The zero is replaced by \<open>+inf\<close> in the divisor, so \<open>rs\<close> is 0 and the RSI is 0 there, not
  100. The first fourteen values cannot be computed and are 50.
\<close>

theorem rsi_rising_series:
  "compute_rsi [Fin 1, Fin 2, Fin 3, Fin 4, Fin 5, Fin 6, Fin 7, Fin 8, Fin 9, Fin 10,
                Fin 11, Fin 12, Fin 13, Fin 14, Fin 15, Fin 16] 14 =
     [Fin 50, Fin 50, Fin 50, Fin 50, Fin 50, Fin 50, Fin 50, Fin 50, Fin 50, Fin 50,
      Fin 50, Fin 50, Fin 50, Fin 50, Fin 0, Fin 0]"
  by code_simp

text \<open>
  C5 (the code departs from the claim). On sixteen equal prices the RSI is 50 only while
  the window is incomplete; from position 14 on it is 0. The MACD line and its signal line
  are 0 at every position.
\<close>

theorem rsi_flat_series:
  "compute_rsi [Fin 5, Fin 5, Fin 5, Fin 5, Fin 5, Fin 5, Fin 5, Fin 5, Fin 5, Fin 5,
                Fin 5, Fin 5, Fin 5, Fin 5, Fin 5, Fin 5] 14 =
     [Fin 50, Fin 50, Fin 50, Fin 50, Fin 50, Fin 50, Fin 50, Fin 50, Fin 50, Fin 50,
      Fin 50, Fin 50, Fin 50, Fin 50, Fin 0, Fin 0]
   \<and> macd_col (compute_macd [Fin 5, Fin 5, Fin 5, Fin 5, Fin 5, Fin 5, Fin 5, Fin 5, Fin 5,
                Fin 5, Fin 5, Fin 5, Fin 5, Fin 5, Fin 5, Fin 5]) =
     [Fin 0, Fin 0, Fin 0, Fin 0, Fin 0, Fin 0, Fin 0, Fin 0, Fin 0, Fin 0,
      Fin 0, Fin 0, Fin 0, Fin 0, Fin 0, Fin 0]
   \<and> signal_col (compute_macd [Fin 5, Fin 5, Fin 5, Fin 5, Fin 5, Fin 5, Fin 5, Fin 5, Fin 5,
                Fin 5, Fin 5, Fin 5, Fin 5, Fin 5, Fin 5, Fin 5]) =
     [Fin 0, Fin 0, Fin 0, Fin 0, Fin 0, Fin 0, Fin 0, Fin 0, Fin 0, Fin 0,
      Fin 0, Fin 0, Fin 0, Fin 0, Fin 0, Fin 0]"
  by code_simp

text \<open>The same for a flat series of any length, any price and any window.\<close>

lemma ewm_from_flat: "ewm_from alpha (Fin c, 1) (replicate n (Fin c)) = replicate n (Fin c)"
  by (induction n) (simp_all add: ewm_step_def Let_def isnan_def feq_def)

lemma ewm_mean_flat: "ewm_mean alpha (replicate n (Fin c)) = replicate n (Fin c)"
  by (cases n) (simp_all add: ewm_mean_def ewm_from_flat)

lemma macd_flat:
  "compute_macd (replicate n (Fin c)) =
     \<lparr>macd_col = replicate n (Fin 0), signal_col = replicate n (Fin 0),
      hist_col = replicate n (Fin 0)\<rparr>"
  by (simp add: compute_macd_def Let_def ewm_mean_flat zip_replicate fsub_def)

lemma diff_from_flat: "diff_from (Fin c) (replicate k (Fin c)) = replicate k (Fin 0)"
  by (induction k) (simp_all add: fsub_def)

lemma diff_flat: "diff (Fin c # replicate k (Fin c)) = NaN # replicate k (Fin 0)"
  by (simp add: diff_def diff_from_flat)

lemma window_at_flat:
  assumes "0 < w" and "w \<le> i" and "i \<le> k"
  shows "window_at w (x # replicate k z) i = replicate w z"
proof -
  from assms have "Suc i - w = Suc (i - w)" by simp
  moreover from assms have "min i k = i" by simp
  moreover from assms have "i - (i - w) = w" by simp
  ultimately show ?thesis
    by (simp add: window_at_def)
qed

lemma fin_vals_replicate: "fin_vals (replicate k (Fin a)) = replicate k a"
  by (induction k) simp_all

lemma mean_obs_zeros: "0 < w \<Longrightarrow> mean_obs w (replicate w (Fin 0)) = Fin 0"
  by (simp add: mean_obs_def fin_vals_replicate Let_def sum_list_replicate)

lemma rolling_mean_nth:
  "i < length xs \<Longrightarrow> rolling_mean w m xs ! i = mean_obs m (window_at w xs i)"
  by (simp add: rolling_mean_def)

lemma compute_rsi_nth:
  assumes "i < length s"
  shows "compute_rsi s w ! i =
     fillna (Fin 50) (rsi_of_rs (fdiv
       (rolling_mean w w (map (clip_lower (Fin 0)) (diff s)) ! i)
       (replace_val (Fin 0) PInf
          (rolling_mean w w (map (\<lambda>d. fneg (clip_upper (Fin 0) d)) (diff s)) ! i))))"
  using assms by (simp add: compute_rsi_def Let_def)

lemma rsi_flat:
  assumes w: "0 < w" and wi: "w \<le> i" and i: "i < n"
  shows "compute_rsi (replicate n (Fin c)) w ! i = Fin 0"
proof -
  from i obtain k where n: "n = Suc k" by (cases n) auto
  with i have ik: "i \<le> k" by simp
  have gain: "map (clip_lower (Fin 0)) (diff (replicate n (Fin c))) = NaN # replicate k (Fin 0)"
    by (simp add: n diff_flat clip_lower_def isnan_def fge_def fle_def feq_def)
  have loss: "map (\<lambda>d. fneg (clip_upper (Fin 0) d)) (diff (replicate n (Fin c)))
      = NaN # replicate k (Fin 0)"
    by (simp add: n diff_flat clip_upper_def isnan_def fle_def feq_def)
  have avg: "rolling_mean w w (NaN # replicate k (Fin 0)) ! i = Fin 0"
    using i n by (simp add: rolling_mean_nth window_at_flat [OF w wi ik] mean_obs_zeros [OF w])
  have "i < length (replicate n (Fin c))" using i by simp
  from compute_rsi_nth [OF this, of w] show ?thesis
    by (simp add: gain loss avg zero_loss_gives_zero)
qed

end
